theory Spec2Isabelle
  imports Main
begin

section \<open>Data model\<close>

text \<open>\<open>ChartReference\<close>: the identity of one chart.\<close>

record ChartReference =
  machineId :: string
  chartId :: string

section \<open>JavaScript array primitives used by the engine\<close>

text \<open>
  \<open>Array.prototype.findIndex\<close>: the index of the first element that satisfies the
  predicate, and \<open>-1\<close> when there is none.
\<close>

fun findIndexFrom :: "int \<Rightarrow> ('a \<Rightarrow> bool) \<Rightarrow> 'a list \<Rightarrow> int" where
  "findIndexFrom i p [] = -1"
| "findIndexFrom i p (x # xs) = (if p x then i else findIndexFrom (i + 1) p xs)"

definition findIndex :: "('a \<Rightarrow> bool) \<Rightarrow> 'a list \<Rightarrow> int" where
  "findIndex p xs = findIndexFrom 0 p xs"

text \<open>
  \<open>Array.prototype.splice(start, deleteCount, ...items)\<close>: a negative \<open>start\<close> counts
  from the end of the array (\<open>max (length + start) 0\<close>), a \<open>start\<close> beyond the end is the
  end; \<open>deleteCount\<close> is clamped to what is left after \<open>start\<close>. The array is changed in
  place; the model returns the new array.
\<close>

definition spliceStart :: "int \<Rightarrow> 'a list \<Rightarrow> nat" where
  "spliceStart start xs =
     (if start < 0 then nat (max (int (length xs) + start) 0)
      else nat (min start (int (length xs))))"

definition splice :: "int \<Rightarrow> int \<Rightarrow> 'a list \<Rightarrow> 'a list \<Rightarrow> 'a list" where
  "splice start deleteCount items xs =
     (let s = spliceStart start xs;
          d = nat (min (max deleteCount 0) (int (length xs) - int s))
      in take s xs @ items @ drop (s + d) xs)"

section \<open>Deferred event manager (XJogDeferredEventManager)\<close>

text \<open>
  A row of the \<open>deferredEvents\<close> table as the adapter returns it. Times are milliseconds
  since the epoch; \<open>lock\<close> is the id of the instance that processes the event.
\<close>

record PersistedDeferredEvent =
  id :: int
  ref :: ChartReference
  eventId :: string
  eventTo :: "string option"
  event :: string
  delay :: int
  due :: int
  lock :: "string option"

text \<open>
  The manager's in-memory state: the list \<open>deferredEvents\<close> and the keys of the map
  \<open>deferredEventTimers\<close> (the timer handles themselves carry no data).
\<close>

record DeferredEventManager =
  deferredEvents :: "PersistedDeferredEvent list"
  deferredEventTimers :: "int list"

definition emptyManager :: DeferredEventManager where
  "emptyManager = \<lparr> deferredEvents = [], deferredEventTimers = [] \<rparr>"

text \<open>The predicate \<open>schedule\<close> passes to \<open>findIndex\<close>: the existing event is later.\<close>

definition laterThan :: "PersistedDeferredEvent \<Rightarrow> PersistedDeferredEvent \<Rightarrow> bool" where
  "laterThan new existing =
     (due existing > due new \<or> (due existing = due new \<and> id existing > id new))"

text \<open>
  \<open>schedule\<close>: stores the timer handle under the event's id, then inserts the event
  with \<open>splice(indexOfLaterDeferredEvent, 0, event)\<close>, whatever \<open>findIndex\<close> returned.
\<close>

definition schedule :: "PersistedDeferredEvent \<Rightarrow> DeferredEventManager \<Rightarrow> DeferredEventManager" where
  "schedule ev m =
     (let indexOfLaterDeferredEvent = findIndex (laterThan ev) (deferredEvents m)
      in m\<lparr> deferredEventTimers := id ev # filter (\<lambda>k. k \<noteq> id ev) (deferredEventTimers m),
             deferredEvents := splice indexOfLaterDeferredEvent 0 [ev] (deferredEvents m) \<rparr>)"

text \<open>
  \<open>unschedule\<close>: looks the event up by its \<open>eventId\<close>; returns null (here \<open>None\<close>) and
  changes nothing when it is not scheduled, and otherwise removes it with
  \<open>splice(index, 1)\<close> and drops its timer.
\<close>

definition unschedule ::
  "string \<Rightarrow> DeferredEventManager \<Rightarrow> DeferredEventManager \<times> PersistedDeferredEvent option" where
  "unschedule eid m =
     (let deferredEventIndex = findIndex (\<lambda>c. eventId c = eid) (deferredEvents m)
      in if deferredEventIndex = -1 then (m, None)
         else
           (let removed = deferredEvents m ! nat deferredEventIndex
            in (m\<lparr> deferredEvents := splice deferredEventIndex 1 [] (deferredEvents m),
                    deferredEventTimers := filter (\<lambda>k. k \<noteq> id removed) (deferredEventTimers m) \<rparr>,
                Some removed)))"

text \<open>The order the list is documented to keep: by due time, then by id.\<close>

definition dueIdLe :: "PersistedDeferredEvent \<Rightarrow> PersistedDeferredEvent \<Rightarrow> bool" where
  "dueIdLe a b = (due a < due b \<or> (due a = due b \<and> id a \<le> id b))"

definition sortedByDueId :: "PersistedDeferredEvent list \<Rightarrow> bool" where
  "sortedByDueId xs = sorted_wrt dueIdLe xs"

definition ev1 :: PersistedDeferredEvent where
  "ev1 = \<lparr> id = 1, ref = \<lparr> machineId = ''m'', chartId = ''c'' \<rparr>, eventId = ''a'',
           eventTo = None, event = ''tick'', delay = 100, due = 100, lock = Some ''A'' \<rparr>"

definition ev2 :: PersistedDeferredEvent where
  "ev2 = \<lparr> id = 2, ref = \<lparr> machineId = ''m'', chartId = ''c'' \<rparr>, eventId = ''b'',
           eventTo = None, event = ''tock'', delay = 200, due = 200, lock = Some ''A'' \<rparr>"

section \<open>Persistence store (PersistenceAdapter, PostgresPersistenceAdapter)\<close>

text \<open>The tables \<open>instances\<close>, \<open>charts\<close> and \<open>ongoingActivities\<close>, a row per record.\<close>

record PersistedInstance =
  instanceId :: string
  dying :: bool

record PersistedChart =
  ownerId :: string
  chartRef :: ChartReference
  parentRef :: "ChartReference option"
  state :: string
  paused :: bool

record PersistedOngoingActivity =
  activityRef :: ChartReference
  activityId :: string

record Database =
  instances :: "PersistedInstance list"
  charts :: "PersistedChart list"
  ongoingActivities :: "PersistedOngoingActivity list"
  deferredEventRows :: "PersistedDeferredEvent list"

definition emptyDatabase :: Database where
  "emptyDatabase = \<lparr> instances = [], charts = [], ongoingActivities = [], deferredEventRows = [] \<rparr>"

subsection \<open>Low-level statements of the PostgreSQL adapter\<close>

definition countAliveInstances :: "Database \<Rightarrow> nat" where
  "countAliveInstances db = length (filter (\<lambda>i. \<not> dying i) (instances db))"

text \<open>\<open>INSERT INTO instances (instanceId)\<close>: the column \<open>dying\<close> defaults to false.\<close>

definition insertInstance :: "string \<Rightarrow> Database \<Rightarrow> Database" where
  "insertInstance i db = db\<lparr> instances := instances db @ [\<lparr> instanceId = i, dying = False \<rparr>] \<rparr>"

text \<open>
  \<open>deleteInstance\<close>: the body of the method is a comment (the DELETE statement is
  disabled behind a TODO), so the method changes nothing.
\<close>

definition deleteInstance :: "string \<Rightarrow> Database \<Rightarrow> Database" where
  "deleteInstance i db = db"

definition markAllInstancesDying :: "Database \<Rightarrow> Database" where
  "markAllInstancesDying db = db\<lparr> instances := map (\<lambda>i. i\<lparr> dying := True \<rparr>) (instances db) \<rparr>"

definition markAllChartsPaused :: "Database \<Rightarrow> Database" where
  "markAllChartsPaused db = db\<lparr> charts := map (\<lambda>c. c\<lparr> paused := True \<rparr>) (charts db) \<rparr>"

definition countPausedCharts :: "Database \<Rightarrow> nat" where
  "countPausedCharts db = length (filter paused (charts db))"

definition getPausedChartIds :: "Database \<Rightarrow> ChartReference list" where
  "getPausedChartIds db = map chartRef (filter paused (charts db))"

definition hasOngoingActivity :: "Database \<Rightarrow> ChartReference \<Rightarrow> bool" where
  "hasOngoingActivity db r = list_ex (\<lambda>a. activityRef a = r) (ongoingActivities db)"

definition getPausedChartWithNoOngoingActivitiesIds :: "Database \<Rightarrow> ChartReference list" where
  "getPausedChartWithNoOngoingActivitiesIds db =
     map chartRef (filter (\<lambda>c. paused c \<and> \<not> hasOngoingActivity db (chartRef c)) (charts db))"

definition countOwnCharts :: "string \<Rightarrow> Database \<Rightarrow> nat" where
  "countOwnCharts i db = length (filter (\<lambda>c. ownerId c = i) (charts db))"

text \<open>
  The subquery of \<open>deleteOngoingActivitiesForPausedCharts\<close>: a row of \<open>charts\<close> with the
  activity's machine id and chart id and \<open>paused = TRUE\<close>.
\<close>

definition pausedChartExists :: "Database \<Rightarrow> PersistedOngoingActivity \<Rightarrow> bool" where
  "pausedChartExists db a = list_ex (\<lambda>c. chartRef c = activityRef a \<and> paused c) (charts db)"

text \<open>
  \<open>DELETE FROM ongoingActivities WHERE NOT EXISTS (SELECT * FROM charts WHERE ... AND
  paused = TRUE)\<close>: the rows deleted are those for which the subquery finds nothing;
  the rows kept are those of paused charts. Returns the new database and the row count.
\<close>

definition deleteOngoingActivitiesForPausedCharts :: "Database \<Rightarrow> Database \<times> nat" where
  "deleteOngoingActivitiesForPausedCharts db =
     (db\<lparr> ongoingActivities := filter (\<lambda>a. pausedChartExists db a) (ongoingActivities db) \<rparr>,
      length (filter (\<lambda>a. \<not> pausedChartExists db a) (ongoingActivities db)))"

definition changeOwnerAndResumePausedCharts :: "string \<Rightarrow> Database \<Rightarrow> Database" where
  "changeOwnerAndResumePausedCharts i db =
     db\<lparr> charts := map (\<lambda>c. if paused c then c\<lparr> paused := False, ownerId := i \<rparr> else c) (charts db) \<rparr>"

fun changeOwnerAndResumeCharts :: "string \<Rightarrow> ChartReference list \<Rightarrow> Database \<Rightarrow> Database" where
  "changeOwnerAndResumeCharts i [] db = db"
| "changeOwnerAndResumeCharts i (r # rs) db =
     changeOwnerAndResumeCharts i rs
       (db\<lparr> charts := map (\<lambda>c. if chartRef c = r then c\<lparr> paused := False, ownerId := i \<rparr> else c)
                         (charts db) \<rparr>)"

definition unmarkAllDeferredEventsForProcessing :: "Database \<Rightarrow> Database" where
  "unmarkAllDeferredEventsForProcessing db =
     db\<lparr> deferredEventRows := map (\<lambda>e. e\<lparr> lock := None \<rparr>) (deferredEventRows db) \<rparr>"

definition unregisterActivity :: "ChartReference \<Rightarrow> string \<Rightarrow> Database \<Rightarrow> Database" where
  "unregisterActivity r a db =
     db\<lparr> ongoingActivities :=
           filter (\<lambda>x. \<not> (activityRef x = r \<and> activityId x = a)) (ongoingActivities db) \<rparr>"

subsection \<open>Higher-level methods of the abstract adapter\<close>

text \<open>
  The statements of a transaction run one after the other on the connection; none of
  the statements modelled here fails, so the transaction commits what they did.
\<close>

definition overthrowOtherInstances :: "string \<Rightarrow> Database \<Rightarrow> Database" where
  "overthrowOtherInstances i db = insertInstance i (markAllChartsPaused (markAllInstancesDying db))"

definition removeInstance :: "string \<Rightarrow> Database \<Rightarrow> Database" where
  "removeInstance i db = deleteInstance i db"

definition gentlyAdoptCharts :: "string \<Rightarrow> Database \<Rightarrow> Database \<times> ChartReference list" where
  "gentlyAdoptCharts i db =
     (let adoptedChartIds = getPausedChartWithNoOngoingActivitiesIds db
      in (changeOwnerAndResumeCharts i adoptedChartIds db, adoptedChartIds))"

definition forciblyAdoptCharts :: "string \<Rightarrow> Database \<Rightarrow> Database \<times> ChartReference list" where
  "forciblyAdoptCharts i db =
     (let adoptedChartIds = getPausedChartIds db;
          db1 = fst (deleteOngoingActivitiesForPausedCharts db);
          db2 = changeOwnerAndResumePausedCharts i db1
      in (db2, adoptedChartIds))"

subsection \<open>Death note (onDeathNote)\<close>

text \<open>
  The closure state of \<open>onDeathNote\<close>: the flag \<open>cancelled\<close>, whether the interval timer
  is still armed, and how often the callback has been called.
\<close>

record DeathNoteListener =
  cancelled :: bool
  timerArmed :: bool
  callbackCalls :: nat

definition onDeathNote :: DeathNoteListener where
  "onDeathNote = \<lparr> cancelled = False, timerArmed = True, callbackCalls = 0 \<rparr>"

definition clearIntervalTimer :: "DeathNoteListener \<Rightarrow> DeathNoteListener" where
  "clearIntervalTimer l = l\<lparr> timerArmed := False \<rparr>"

text \<open>
  One run of the interval callback for instance \<open>i\<close>, reading the database \<open>db\<close>. A
  cleared interval does not run. In the dying branch the code sets \<open>cancelled = true\<close>,
  clears the timer and then calls the callback under \<open>if (!cancelled)\<close>.
\<close>

definition deathNotePoll :: "string \<Rightarrow> Database \<Rightarrow> DeathNoteListener \<Rightarrow> DeathNoteListener" where
  "deathNotePoll i db l =
     (if \<not> timerArmed l then l
      else if cancelled l then clearIntervalTimer l
      else
        (let isDying = length (filter (\<lambda>r. instanceId r = i \<and> dying r) (instances db)) > 0
         in if isDying then
              (let l1 = l\<lparr> cancelled := True \<rparr>;
                   l2 = clearIntervalTimer l1
               in if \<not> cancelled l2 then l2\<lparr> callbackCalls := callbackCalls l2 + 1 \<rparr> else l2)
            else l))"

text \<open>The function \<open>onDeathNote\<close> returns: cancels the listener.\<close>

definition cancelDeathNote :: "DeathNoteListener \<Rightarrow> DeathNoteListener" where
  "cancelDeathNote l = clearIntervalTimer (l\<lparr> cancelled := True \<rparr>)"

text \<open>Successive polls, each reading the database as it is at that moment.\<close>

fun deathNotePolls :: "string \<Rightarrow> Database list \<Rightarrow> DeathNoteListener \<Rightarrow> DeathNoteListener" where
  "deathNotePolls i [] l = l"
| "deathNotePolls i (db # dbs) l = deathNotePolls i dbs (deathNotePoll i db l)"

section \<open>Engine shutdown (XJog.shutdown)\<close>

text \<open>
  The fields of the engine that \<open>shutdown\<close> reads and writes: its id, the flags
  \<open>isDying\<close>, \<open>started\<close> and \<open>ready\<close> (the last two belong to the startup manager), the
  death-note listener, the in-memory registry of the activity manager, the deferred event
  manager, whether \<open>halt\<close> has been emitted, and the database behind the persistence
  adapter.
\<close>

record XJog =
  xjogId :: string
  isDying :: bool
  started :: bool
  ready :: bool
  deathNoteListener :: DeathNoteListener
  activityRegistry :: "PersistedOngoingActivity list"
  deferredEventManager :: DeferredEventManager
  halted :: bool
  persistence :: Database

text \<open>
  \<open>releaseAll\<close> of the deferred event manager: clears the timers and the list, then
  releases every lock in the table.
\<close>

definition releaseAll :: "XJog \<Rightarrow> XJog" where
  "releaseAll x =
     x\<lparr> deferredEventManager := emptyManager,
        persistence := unmarkAllDeferredEventsForProcessing (persistence x) \<rparr>"

text \<open>\<open>stopAllActivities\<close>: stops and unregisters every activity of the registry.\<close>

fun unregisterAll :: "PersistedOngoingActivity list \<Rightarrow> Database \<Rightarrow> Database" where
  "unregisterAll [] db = db"
| "unregisterAll (a # as) db = unregisterAll as (unregisterActivity (activityRef a) (activityId a) db)"

definition stopAllActivities :: "XJog \<Rightarrow> XJog" where
  "stopAllActivities x =
     x\<lparr> persistence := unregisterAll (activityRegistry x) (persistence x), activityRegistry := [] \<rparr>"

text \<open>
  The loop of \<open>shutdown\<close> that polls \<open>countOwnCharts\<close> until it is zero. Only other
  instances take charts away; the model is of one engine, so the database stays as it is
  between two polls, and a loop that does not end has no result (\<open>None\<close>).
\<close>

partial_function (option) waitForAdoption :: "string \<Rightarrow> Database \<Rightarrow> unit option" where
  "waitForAdoption i db = (if countOwnCharts i db > 0 then waitForAdoption i db else Some ())"

text \<open>
  \<open>shutdown\<close>. The getter \<open>dying\<close> throws when the engine is dying but was never
  started (\<open>Inl\<close>); the startup manager is stopped when it is not ready yet, which ends
  with \<open>signalReadiness\<close>.
\<close>

definition shutdown :: "XJog \<Rightarrow> (string + XJog) option" where
  "shutdown x =
     (if isDying x \<and> \<not> started x then Some (Inl ''Unexpected condition: dying, but not started'')
      else if isDying x then Some (Inr x)
      else if \<not> started x then Some (Inr x)
      else
        (let x1 = x\<lparr> deathNoteListener := cancelDeathNote (deathNoteListener x) \<rparr>;
             x2 = x1\<lparr> isDying := True \<rparr>;
             x3 = x2\<lparr> persistence := removeInstance (xjogId x2) (persistence x2) \<rparr>;
             x4 = releaseAll x3;
             x5 = stopAllActivities x4;
             x6 = (if \<not> ready x5 then x5\<lparr> ready := True \<rparr> else x5);
             instanceCount = countAliveInstances (persistence x6)
         in if instanceCount > 0
            then (case waitForAdoption (xjogId x6) (persistence x6) of
                    None \<Rightarrow> None
                  | Some u \<Rightarrow> Some (Inr (x6\<lparr> halted := True \<rparr>)))
            else Some (Inr (x6\<lparr> halted := True \<rparr>))))"

text \<open>
  An engine right after \<open>start\<close> on an empty database: \<open>overthrowOtherInstances\<close> has
  committed, there was nothing to adopt, and the death-note listener is installed.
\<close>

definition startedEngine :: "string \<Rightarrow> XJog" where
  "startedEngine i =
     \<lparr> xjogId = i, isDying = False, started = True, ready = True,
       deathNoteListener = onDeathNote, activityRegistry = [],
       deferredEventManager = emptyManager, halted = False,
       persistence = overthrowOtherInstances i emptyDatabase \<rparr>"

section \<open>JSON values and JSON patches\<close>

datatype json =
    JNull
  | JBool bool
  | JNumber int
  | JString string
  | JArray "json list"
  | JObject "(string \<times> json) list"

text \<open>An operation of a JSON patch (rfc6902 \<open>Operation\<close>): \<open>op\<close>, \<open>path\<close>, \<open>value\<close>.\<close>

record Operation =
  op :: string
  opPath :: string
  opValue :: "json option"

text \<open>JavaScript truthiness of a JSON value, as tested by \<open>x ? a : b\<close>.\<close>

fun truthy :: "json \<Rightarrow> bool" where
  "truthy JNull = False"
| "truthy (JBool b) = b"
| "truthy (JNumber n) = (n \<noteq> 0)"
| "truthy (JString s) = (s \<noteq> [])"
| "truthy (JArray xs) = True"
| "truthy (JObject kvs) = True"

datatype jsonError = ComplexPatchButInputIsNotAnObject

text \<open>
  \<open>nullSafeApplyJsonDiff(input, patch)\<close>. The library function \<open>applyPatch\<close> of rfc6902 is
  not part of the repository and is a parameter; it is reached only by the last branch,
  on a deep copy of the input (\<open>JSON.parse(JSON.stringify(input))\<close>).
\<close>

definition nullSafeApplyJsonDiff ::
  "(json \<Rightarrow> Operation list \<Rightarrow> json) \<Rightarrow> json \<Rightarrow> Operation list \<Rightarrow> jsonError + json" where
  "nullSafeApplyJsonDiff applyPatch input patch =
     (if length patch = 1 \<and> op (patch ! 0) = ''replace'' \<and> opPath (patch ! 0) = []
      then Inr (case opValue (patch ! 0) of None \<Rightarrow> JNull | Some v \<Rightarrow> v)
      else case input of
          JString s \<Rightarrow> Inl ComplexPatchButInputIsNotAnObject
        | JNumber n \<Rightarrow> Inl ComplexPatchButInputIsNotAnObject
        | JNull \<Rightarrow> Inl ComplexPatchButInputIsNotAnObject
        | _ \<Rightarrow> Inr (applyPatch input patch))"

section \<open>Journal store (JournalPersistenceAdapter, PostgresJournalPersistenceAdapter)\<close>

record JournalEntry =
  entryId :: int
  entryRef :: ChartReference
  entryEvent :: "json option"
  entryState :: "json option"
  entryContext :: "json option"
  stateDelta :: "Operation list"
  contextDelta :: "Operation list"

record FullStateEntry =
  fullId :: int
  fullTimestamp :: int
  fullOwnerId :: string
  fullRef :: ChartReference
  fullParentRef :: "ChartReference option"
  fullEvent :: "json option"
  fullState :: "json option"
  fullContext :: "json option"

text \<open>
  The journal database: the two tables, the next value of the serial \<open>id\<close> column and
  the notifications sent on \<open>new-journal-entry\<close>.
\<close>

record JournalDatabase =
  journalEntries :: "JournalEntry list"
  fullJournalStates :: "FullStateEntry list"
  nextId :: int
  notifications :: "(int \<times> ChartReference) list"

datatype journalError = FailedToWriteJournalEntry | FailedToWriteJournalFullEntry

text \<open>\<open>x ? Buffer.from(JSON.stringify(x)) : null\<close>: a falsy value is stored as NULL.\<close>

definition orNull :: "json option \<Rightarrow> json option" where
  "orNull v = (case v of None \<Rightarrow> None | Some j \<Rightarrow> (if truthy j then Some j else None))"

text \<open>
  \<open>insertEntry\<close>: the row gets the next serial id; the columns \<open>state\<close> and \<open>context\<close>
  are written as NULL.
\<close>

definition insertEntry ::
  "ChartReference \<Rightarrow> json option \<Rightarrow> Operation list \<Rightarrow> Operation list \<Rightarrow> JournalDatabase
     \<Rightarrow> JournalDatabase \<times> int" where
  "insertEntry r ev sd cd jdb =
     (jdb\<lparr> journalEntries := journalEntries jdb @
              [\<lparr> entryId = nextId jdb, entryRef = r, entryEvent = orNull ev,
                 entryState = None, entryContext = None, stateDelta = sd, contextDelta = cd \<rparr>],
           nextId := nextId jdb + 1 \<rparr>,
      nextId jdb)"

text \<open>
  \<open>updateFullState\<close>: \<open>INSERT ... ON CONFLICT (machineId, chartId) DO UPDATE SET id,
  timestamp, event, state, context WHERE fullJournalStates.id < :id\<close>. With no row for
  the chart the entry is inserted; a row with a lower id is updated; otherwise no row
  is affected and the method throws.
\<close>

definition updateRow :: "FullStateEntry \<Rightarrow> FullStateEntry \<Rightarrow> FullStateEntry" where
  "updateRow entry row =
     row\<lparr> fullId := fullId entry, fullTimestamp := fullTimestamp entry,
          fullEvent := orNull (fullEvent entry), fullState := orNull (fullState entry),
          fullContext := orNull (fullContext entry) \<rparr>"

definition updateFullState ::
  "FullStateEntry \<Rightarrow> FullStateEntry list \<Rightarrow> journalError + FullStateEntry list" where
  "updateFullState entry rows =
     (case filter (\<lambda>r. fullRef r = fullRef entry) rows of
        [] \<Rightarrow> Inr (rows @ [entry\<lparr> fullEvent := orNull (fullEvent entry),
                                  fullState := orNull (fullState entry),
                                  fullContext := orNull (fullContext entry) \<rparr>])
      | existing # _ \<Rightarrow>
          (if fullId existing < fullId entry
           then Inr (map (\<lambda>r. if fullRef r = fullRef entry then updateRow entry r else r) rows)
           else Inl FailedToWriteJournalFullEntry))"

text \<open>The table after the statement: a statement that throws has written nothing.\<close>

definition fullStatesAfter :: "FullStateEntry \<Rightarrow> FullStateEntry list \<Rightarrow> FullStateEntry list" where
  "fullStatesAfter entry rows = (case updateFullState entry rows of Inl e \<Rightarrow> rows | Inr rows' \<Rightarrow> rows')"

text \<open>The row stored for a chart, if the table has one, and its id.\<close>

definition storedRow :: "ChartReference \<Rightarrow> FullStateEntry list \<Rightarrow> FullStateEntry option" where
  "storedRow r rows = (case filter (\<lambda>x. fullRef x = r) rows of [] \<Rightarrow> None | x # _ \<Rightarrow> Some x)"

definition storedId :: "ChartReference \<Rightarrow> FullStateEntry list \<Rightarrow> int option" where
  "storedId r rows = map_option fullId (storedRow r rows)"

text \<open>
  \<open>record\<close> of the journal adapter. The library function \<open>createPatch(input, output)\<close>
  of rfc6902 is a parameter. The statements run on the write connection one by one (the
  adapter opens no transaction): when \<open>updateFullState\<close> throws, the journal entry stays
  inserted and no notification is sent.
\<close>

definition journalRecord ::
  "(json \<Rightarrow> json \<Rightarrow> Operation list) \<Rightarrow> string \<Rightarrow> ChartReference \<Rightarrow> ChartReference option \<Rightarrow>
     json option \<Rightarrow> json \<Rightarrow> json \<Rightarrow> json \<Rightarrow> json \<Rightarrow> int \<Rightarrow> JournalDatabase
     \<Rightarrow> journalError + JournalDatabase" where
  "journalRecord createPatch owner r parent ev oldState oldContext newState newContext ts jdb =
     (let sd = createPatch newState oldState;
          cd = createPatch newContext oldContext;
          (jdb1, newId) = insertEntry r ev sd cd jdb
      in case updateFullState
                \<lparr> fullId = newId, fullTimestamp = ts, fullOwnerId = owner, fullRef = r,
                  fullParentRef = parent, fullEvent = ev, fullState = Some newState,
                  fullContext = Some newContext \<rparr> (fullJournalStates jdb1) of
           Inl e \<Rightarrow> Inl e
         | Inr rows \<Rightarrow>
             Inr (jdb1\<lparr> fullJournalStates := rows,
                        notifications := notifications jdb1 @ [(newId, r)] \<rparr>))"

definition emptyJournal :: JournalDatabase where
  "emptyJournal = \<lparr> journalEntries = [], fullJournalStates = [], nextId = 1, notifications = [] \<rparr>"

section \<open>Chart executor (XJogChart.send)\<close>

text \<open>
  The evaluator's \<open>State\<close> as far as the engine reads it: the state value, the context
  (a JSON object, as its list of fields), whether the state is final, the actions to
  execute and the ids of the activities that are on.
\<close>

datatype action =
    ExecAction bool
  | SendAction string string "int option" "string option"
  | CancelAction string
  | StartAction string bool
  | StopAction string
  | LogAction string
  | OtherAction string

record State =
  stateValue :: json
  stateContext :: "(string \<times> json) list"
  stateDone :: bool
  stateActions :: "action list"
  stateActivities :: "string list"

text \<open>\<open>XJogStateChange\<close> of type \<open>update\<close>, as \<open>send\<close> hands it to the update hooks.\<close>

record XJogStateChange =
  changeRef :: ChartReference
  changeParentRef :: "ChartReference option"
  changeEvent :: string
  changeOldValue :: json
  changeOldContext :: "(string \<times> json) list"
  changeNewValue :: json
  changeNewContext :: "(string \<times> json) list"

text \<open>
  What \<open>send\<close> does to the rest of the engine, in the order it does it: an event handed
  to the deferred event manager (\<open>defer\<close>: owner, event, delay, target), an event
  delivered at once by \<open>xJog.sendEvent\<close>, the write of the chart row, the broadcast of
  the change, and the effects of the actions.
\<close>

datatype effect =
    Deferred ChartReference string int "string option"
  | SentEvent ChartReference string
  | UpdatedChart ChartReference
  | Published XJogStateChange
  | CancelledEvent string
  | InvokedService string
  | StoppedActivity string
  | Logged string
  | AutoForwarded string

record XJogChart =
  chartMachineId :: string
  chartIdOf :: string
  chartParentRef :: "ChartReference option"
  chartState :: State
  stopping :: bool

definition refOf :: "XJogChart \<Rightarrow> ChartReference" where
  "refOf c = \<lparr> machineId = chartMachineId c, chartId = chartIdOf c \<rparr>"

text \<open>
  The chart in memory together with what it shares with the engine: the engine's
  \<open>dying\<close> flag, the state stored in the chart's row, and the effects so far.
\<close>

record ChartWorld =
  chart :: XJogChart
  engineDying :: bool
  persistedState :: State
  effects :: "effect list"

text \<open>The optional second argument of \<open>send\<close>: an updater function or fields to patch.\<close>

datatype contextPatch =
    Reducer "(string \<times> json) list \<Rightarrow> (string \<times> json) list"
  | Fields "(string \<times> json) list"

text \<open>\<open>Object.assign({}, context, fields)\<close>: a field that exists is overwritten in place,
  a new field is added at the end.\<close>

fun assignField :: "string \<Rightarrow> json \<Rightarrow> (string \<times> json) list \<Rightarrow> (string \<times> json) list" where
  "assignField k v [] = [(k, v)]"
| "assignField k v ((k', v') # kvs) =
     (if k = k' then (k, v) # kvs else (k', v') # assignField k v kvs)"

fun objectAssign :: "(string \<times> json) list \<Rightarrow> (string \<times> json) list \<Rightarrow> (string \<times> json) list" where
  "objectAssign target [] = target"
| "objectAssign target ((k, v) # kvs) = objectAssign (assignField k v target) kvs"

text \<open>The context patch is assigned to \<open>this.state.context\<close> before the transition.\<close>

definition patchContext :: "contextPatch option \<Rightarrow> State \<Rightarrow> State" where
  "patchContext p st =
     (case p of
        None \<Rightarrow> st
      | Some (Reducer f) \<Rightarrow> st\<lparr> stateContext := f (stateContext st) \<rparr>
      | Some (Fields kvs) \<Rightarrow> st\<lparr> stateContext := objectAssign (stateContext st) kvs \<rparr>)"

text \<open>The update hooks run one after the other; the first one that throws ends the loop.\<close>

fun runHooks :: "(XJogStateChange \<Rightarrow> string option) list \<Rightarrow> XJogStateChange \<Rightarrow> string option" where
  "runHooks [] change = None"
| "runHooks (h # hs) change = (case h change of Some err \<Rightarrow> Some err | None \<Rightarrow> runHooks hs change)"

text \<open>
  \<open>executeAction\<close>: an action with an \<open>exec\<close> function runs it and swallows what it throws;
  a send action is deferred; cancel, stop and log do what they say; a start action whose
  activity is still on invokes the service, or throws when it is a spawn.
\<close>

fun executeAction :: "ChartReference \<Rightarrow> State \<Rightarrow> action \<Rightarrow> string + effect list" where
  "executeAction r st (ExecAction throws) = Inr []"
| "executeAction r st (SendAction sendId ev d to) =
     Inr [Deferred r ev (case d of None \<Rightarrow> 0 | Some n \<Rightarrow> n) to]"
| "executeAction r st (CancelAction sendId) = Inr [CancelledEvent sendId]"
| "executeAction r st (StartAction a isInvoke) =
     (if a \<in> set (stateActivities st)
      then (if isInvoke then Inr [InvokedService a]
            else Inl ''You need to use xjog-provided `spawn`, which is not yet available'')
      else Inr [])"
| "executeAction r st (StopAction a) = Inr [StoppedActivity a]"
| "executeAction r st (LogAction m) = Inr [Logged m]"
| "executeAction r st (OtherAction t) = Inr []"

text \<open>
  \<open>executeActions\<close>: the actions in order; what an action throws is thrown on, after the
  effects of the actions before it.
\<close>

fun executeActions :: "ChartReference \<Rightarrow> State \<Rightarrow> action list \<Rightarrow> effect list \<times> string option" where
  "executeActions r st [] = ([], None)"
| "executeActions r st (a # as) =
     (case executeAction r st a of
        Inl err \<Rightarrow> ([], Some err)
      | Inr es \<Rightarrow> (let (es', res) = executeActions r st as in (es @ es', res)))"

definition doneInvoke :: "string \<Rightarrow> string" where
  "doneInvoke i = ''done.invoke.'' @ i"

text \<open>
  \<open>send(event, context)\<close>, with the machine's \<open>transition\<close> and the installed update
  hooks as parameters; \<open>Inl\<close> is what \<open>transition\<close> throws. The chart mutex is taken to
  be free. The result is the new state, or null (\<open>None\<close>).
\<close>

definition send ::
  "(State \<Rightarrow> string \<Rightarrow> (string \<times> json) list \<Rightarrow> string + State) \<Rightarrow>
   (XJogStateChange \<Rightarrow> string option) list \<Rightarrow>
   string \<Rightarrow> contextPatch option \<Rightarrow> ChartWorld \<Rightarrow> State option \<times> ChartWorld" where
  "send transition updateHooks ev ctx w =
     (let c = chart w in
      if stopping c \<or> engineDying w
      then (None, w\<lparr> effects := effects w @ [Deferred (refOf c) ev 0 None] \<rparr>)
      else
        (let stateBeforeTransition = stateValue (chartState c);
             contextBeforeTransition = stateContext (chartState c);
             patched = patchContext ctx (chartState c);
             w1 = w\<lparr> chart := c\<lparr> chartState := patched \<rparr> \<rparr>
         in case transition patched ev (stateContext patched) of
              Inl err \<Rightarrow> (None, w1)
            | Inr next \<Rightarrow>
                (let w2 = w1\<lparr> chart := c\<lparr> chartState := next \<rparr> \<rparr>;
                     change = \<lparr> changeRef = refOf c, changeParentRef = chartParentRef c,
                                changeEvent = ev,
                                changeOldValue = stateBeforeTransition,
                                changeOldContext = contextBeforeTransition,
                                changeNewValue = stateValue next, changeNewContext = stateContext next \<rparr>
                 in case runHooks updateHooks change of
                      Some err \<Rightarrow> (None, w2)
                    | None \<Rightarrow>
                        (let w3 = w2\<lparr> persistedState := next,
                                       effects := effects w2 @ [UpdatedChart (refOf c), Published change] \<rparr>;
                             (es, thrown) = executeActions (refOf c) next (stateActions next);
                             w4 = w3\<lparr> effects := effects w3 @ es \<rparr>
                         in case thrown of
                              Some err \<Rightarrow> (None, w4)
                            | None \<Rightarrow>
                                (let w5 = (case chartParentRef c of
                                             None \<Rightarrow> w4
                                           | Some parent \<Rightarrow>
                                               if stateDone next
                                               then w4\<lparr> effects := effects w4 @
                                                         [SentEvent parent (doneInvoke (chartIdOf c))] \<rparr>
                                               else w4)
                                 in (Some next,
                                     w5\<lparr> effects := effects w5 @ [AutoForwarded ev] \<rparr>))))))"

section \<open>Startup manager (XJogStartupManager)\<close>

record StartupOptions =
  adoptionFrequency :: nat
  gracePeriod :: nat

text \<open>
  The startup manager with the world it acts on. Time is in milliseconds; a timer is
  the time at which it fires, or \<open>None\<close> when it is not set. \<open>forcedAdoptions\<close> counts the
  calls of \<open>forciblyAdoptCharts\<close>, \<open>startedCharts\<close> lists the charts handed to
  \<open>startAdoptedCharts\<close>.
\<close>

record StartupManager =
  selfId :: string
  now :: nat
  isStarted :: bool
  isReady :: bool
  startupGracePeriodTimer :: "nat option"
  adoptionLoopTimer :: "nat option"
  forcedAdoptions :: nat
  startedCharts :: "ChartReference list"
  database :: Database

definition exitAdoptionGracePeriod :: "StartupManager \<Rightarrow> StartupManager" where
  "exitAdoptionGracePeriod m = m\<lparr> startupGracePeriodTimer := None \<rparr>"

definition startAdoptionGracePeriod :: "StartupOptions \<Rightarrow> StartupManager \<Rightarrow> StartupManager" where
  "startAdoptionGracePeriod opts m =
     (exitAdoptionGracePeriod m)\<lparr> startupGracePeriodTimer := Some (now m + gracePeriod opts) \<rparr>"

definition signalReadiness :: "StartupManager \<Rightarrow> StartupManager" where
  "signalReadiness m = m\<lparr> isReady := True \<rparr>"

text \<open>
  \<open>startAdoptedCharts\<close> loads each chart and runs its step, which executes the actions
  of the chart's state; it neither pauses nor resumes a chart.
\<close>

definition startAdoptedCharts :: "ChartReference list \<Rightarrow> StartupManager \<Rightarrow> StartupManager" where
  "startAdoptedCharts refs m = m\<lparr> startedCharts := startedCharts m @ refs \<rparr>"

text \<open>
  One pass of \<open>adoptCharts\<close>. Its awaits are taken to resolve at once, so that the pass
  is over before the next timer is due.
\<close>

definition adoptCharts :: "StartupOptions \<Rightarrow> StartupManager \<Rightarrow> StartupManager" where
  "adoptCharts opts m =
     (let m1 = m\<lparr> adoptionLoopTimer := None \<rparr>;
          (db, adoptedChartIdentifiers) = gentlyAdoptCharts (selfId m1) (database m1);
          m2 = m1\<lparr> database := db \<rparr>;
          pausedChartCount = countPausedCharts (database m2);
          m3 = (if adoptedChartIdentifiers \<noteq> [] then startAdoptedCharts adoptedChartIdentifiers m2
                else m2)
      in if pausedChartCount > 0
         then (startAdoptionGracePeriod opts m3)\<lparr>
                adoptionLoopTimer := Some (now m3 + adoptionFrequency opts) \<rparr>
         else signalReadiness (exitAdoptionGracePeriod m3))"

text \<open>The handler of the grace-period timer.\<close>

definition forciblyOverThrowStubbornInstances :: "StartupManager \<Rightarrow> StartupManager" where
  "forciblyOverThrowStubbornInstances m =
     (let m1 = m\<lparr> startupGracePeriodTimer := None \<rparr>;
          (db, adoptedChartIdentifiers) = forciblyAdoptCharts (selfId m1) (database m1);
          m2 = m1\<lparr> database := db, forcedAdoptions := forcedAdoptions m1 + 1 \<rparr>
      in signalReadiness (startAdoptedCharts adoptedChartIdentifiers m2))"

text \<open>\<open>start\<close>: overthrow, enter the grace period, run the first adoption pass.\<close>

definition start :: "StartupOptions \<Rightarrow> StartupManager \<Rightarrow> StartupManager" where
  "start opts m =
     (let m1 = m\<lparr> database := overthrowOtherInstances (selfId m) (database m) \<rparr>;
          m2 = startAdoptionGracePeriod opts m1;
          m3 = adoptCharts opts m2
      in m3\<lparr> isStarted := True \<rparr>)"

text \<open>
  The timer loop of the runtime: the timer that is due first fires, and time moves to
  that moment. When both are due at the same time the grace-period timer, which was
  set first, fires first. With no timer set nothing happens.
\<close>

definition fireNextTimer :: "StartupOptions \<Rightarrow> StartupManager \<Rightarrow> StartupManager" where
  "fireNextTimer opts m =
     (case (startupGracePeriodTimer m, adoptionLoopTimer m) of
        (None, None) \<Rightarrow> m
      | (Some g, None) \<Rightarrow> forciblyOverThrowStubbornInstances (m\<lparr> now := max (now m) g \<rparr>)
      | (None, Some l) \<Rightarrow> adoptCharts opts (m\<lparr> now := max (now m) l \<rparr>)
      | (Some g, Some l) \<Rightarrow>
          (if g \<le> l then forciblyOverThrowStubbornInstances (m\<lparr> now := max (now m) g \<rparr>)
           else adoptCharts opts (m\<lparr> now := max (now m) l \<rparr>)))"

fun fireTimers :: "nat \<Rightarrow> StartupOptions \<Rightarrow> StartupManager \<Rightarrow> StartupManager" where
  "fireTimers 0 opts m = m"
| "fireTimers (Suc n) opts m = fireTimers n opts (fireNextTimer opts m)"

definition newStartupManager :: "string \<Rightarrow> Database \<Rightarrow> StartupManager" where
  "newStartupManager i db =
     \<lparr> selfId = i, now = 0, isStarted = False, isReady = False,
       startupGracePeriodTimer = None, adoptionLoopTimer = None,
       forcedAdoptions = 0, startedCharts = [], database = db \<rparr>"

text \<open>The default options of the engine: adoption every 2 s, grace period 30 s.\<close>

definition defaultStartupOptions :: StartupOptions where
  "defaultStartupOptions = \<lparr> adoptionFrequency = 2000, gracePeriod = 30000 \<rparr>"

section \<open>Chart identifiers (ChartIdentifier)\<close>

text \<open>
  Strings are sequences of bytes, the UTF-8 form of the JavaScript string; every
  character the code below tests for is an ASCII character, one byte.
\<close>

subsection \<open>JavaScript string primitives\<close>

text \<open>\<open>s.split(d)\<close> for a separator of one character: \<open>''''.split(''/'')\<close> is \<open>['''']\<close>.\<close>

fun splitOn :: "char \<Rightarrow> string \<Rightarrow> string list" where
  "splitOn d [] = [[]]"
| "splitOn d (c # cs) =
     (if c = d then [] # splitOn d cs
      else (case splitOn d cs of [] \<Rightarrow> [[c]] | w # ws \<Rightarrow> (c # w) # ws))"

text \<open>\<open>xs.join(d)\<close>.\<close>

fun joinWith :: "char \<Rightarrow> string list \<Rightarrow> string" where
  "joinWith d [] = []"
| "joinWith d [x] = x"
| "joinWith d (x # y # zs) = x @ d # joinWith d (y # zs)"

text \<open>\<open>xs.filter(Boolean)\<close> on strings drops the empty ones.\<close>

definition filterBoolean :: "string list \<Rightarrow> string list" where
  "filterBoolean xs = filter (\<lambda>s. s \<noteq> []) xs"

subsection \<open>Percent-encoding\<close>

definition toHex :: "nat \<Rightarrow> char" where
  "toHex n = (if n < 10 then char_of (48 + n) else char_of (55 + n))"

definition fromHex :: "char \<Rightarrow> nat option" where
  "fromHex c =
     (let n = (of_char c :: nat)
      in if 48 \<le> n \<and> n \<le> 57 then Some (n - 48)
         else if 65 \<le> n \<and> n \<le> 70 then Some (n - 55)
         else if 97 \<le> n \<and> n \<le> 102 then Some (n - 87)
         else None)"

text \<open>
  The path percent-encode set of the URL standard: the C0 controls, everything above
  \<open>~\<close>, and space, \<open>"\<close>, \<open>#\<close>, \<open><\<close>, \<open>>\<close>, \<open>?\<close>, \<open>^\<close>, \<open>`\<close>, \<open>{\<close>, \<open>}\<close>.
\<close>

definition inPathPercentEncodeSet :: "char \<Rightarrow> bool" where
  "inPathPercentEncodeSet c =
     (let n = (of_char c :: nat)
      in n \<le> 31 \<or> n > 126 \<or> n \<in> set [32, 34, 35, 60, 62, 63, 94, 96, 123, 125])"

definition percentEncode :: "char \<Rightarrow> string" where
  "percentEncode c =
     (if inPathPercentEncodeSet c
      then [CHR ''%'', toHex ((of_char c :: nat) div 16), toHex ((of_char c :: nat) mod 16)]
      else [c])"

text \<open>
  Replacing every \<open>%XX\<close> by its byte; \<open>None\<close> when a \<open>%\<close> is not followed by two
  hexadecimal digits.
\<close>

fun unescape :: "string \<Rightarrow> string option" where
  "unescape [] = Some []"
| "unescape (c # cs) =
     (if c = CHR ''%''
      then (case cs of
              d # e # rest \<Rightarrow>
                (case (fromHex d, fromHex e) of
                   (Some a, Some b) \<Rightarrow> map_option ((#) (char_of (16 * a + b))) (unescape rest)
                 | _ \<Rightarrow> None)
            | _ \<Rightarrow> None)
      else map_option ((#) c) (unescape cs))"

text \<open>Well-formed UTF-8 (the table of RFC 3629), on the byte values.\<close>

definition continuation :: "nat \<Rightarrow> bool" where
  "continuation b = (128 \<le> b \<and> b \<le> 191)"

fun validUtf8Bytes :: "nat list \<Rightarrow> bool" where
  "validUtf8Bytes [] = True"
| "validUtf8Bytes (a # bs) =
     (if a \<le> 127 then validUtf8Bytes bs
      else if 194 \<le> a \<and> a \<le> 223 then
        (case bs of b # r \<Rightarrow> continuation b \<and> validUtf8Bytes r | _ \<Rightarrow> False)
      else if 224 \<le> a \<and> a \<le> 239 then
        (case bs of b # c # r \<Rightarrow>
           (if a = 224 then 160 \<le> b \<and> b \<le> 191
            else if a = 237 then 128 \<le> b \<and> b \<le> 159
            else continuation b)
           \<and> continuation c \<and> validUtf8Bytes r
         | _ \<Rightarrow> False)
      else if 240 \<le> a \<and> a \<le> 244 then
        (case bs of b # c # d # r \<Rightarrow>
           (if a = 240 then 144 \<le> b \<and> b \<le> 191
            else if a = 244 then 128 \<le> b \<and> b \<le> 143
            else continuation b)
           \<and> continuation c \<and> continuation d \<and> validUtf8Bytes r
         | _ \<Rightarrow> False)
      else False)"

definition validUtf8 :: "string \<Rightarrow> bool" where
  "validUtf8 s = validUtf8Bytes (map of_char s)"

datatype identifierError =
    InvalidURL
  | URIError
  | WrongProtocol
  | InvalidPath
  | FailedToParseMachineId
  | FailedToParseChartId

text \<open>
  \<open>decodeURIComponent\<close> on an ASCII string: it throws a URIError on a malformed escape
  and on escapes that are not the UTF-8 form of a character.
\<close>

definition decodeURIComponent :: "string \<Rightarrow> identifierError + string" where
  "decodeURIComponent s =
     (case unescape s of
        None \<Rightarrow> Inl URIError
      | Some bytes \<Rightarrow> (if validUtf8 bytes then Inr bytes else Inl URIError))"

subsection \<open>The URL class of the runtime\<close>

text \<open>The properties of a \<open>URL\<close> that \<open>ChartIdentifier\<close> reads.\<close>

record URL =
  protocol :: string
  host :: string
  pathname :: string

definition isC0ControlOrSpace :: "char \<Rightarrow> bool" where
  "isC0ControlOrSpace c = ((of_char c :: nat) \<le> 32)"

definition isTabOrNewline :: "char \<Rightarrow> bool" where
  "isTabOrNewline c = ((of_char c :: nat) \<in> set [9, 10, 13])"

text \<open>
  The first steps of the URL parser: leading and trailing C0 controls and spaces are
  removed, then every tab and newline.
\<close>

definition trimInput :: "string \<Rightarrow> string" where
  "trimInput s =
     filter (\<lambda>c. \<not> isTabOrNewline c)
       (rev (dropWhile isC0ControlOrSpace (rev (dropWhile isC0ControlOrSpace s))))"

text \<open>
  The single-dot and double-dot path segments of the URL standard: \<open>.\<close> and \<open>..\<close>,
  where a dot may also be written \<open>%2e\<close> in either case.
\<close>

definition isSingleDot :: "string \<Rightarrow> bool" where
  "isSingleDot buffer = (buffer \<in> set [''.'', ''%2e'', ''%2E''])"

definition isDoubleDot :: "string \<Rightarrow> bool" where
  "isDoubleDot buffer =
     (buffer \<in> set [''..'', ''.%2e'', ''.%2E'', ''%2e.'', ''%2E.'',
                      ''%2e%2e'', ''%2e%2E'', ''%2E%2e'', ''%2E%2E''])"

text \<open>
  The end of a path segment in the parser's path state, for a scheme that is not
  special: a double-dot segment removes the last segment of the path, a single-dot
  segment adds nothing, and either leaves an empty last segment unless a slash follows.
\<close>

definition closeSegment :: "bool \<Rightarrow> string \<Rightarrow> string list \<Rightarrow> string list" where
  "closeSegment slashFollows buffer path =
     (if isDoubleDot buffer then (if slashFollows then butlast path else butlast path @ [[]])
      else if isSingleDot buffer then (if slashFollows then path else path @ [[]])
      else path @ [buffer])"

text \<open>
  The path state: the path ends at the end of the input or at \<open>?\<close> or \<open>#\<close> (where query
  and fragment begin); every other character is percent-encoded into the buffer.
\<close>

fun pathState :: "string \<Rightarrow> string \<Rightarrow> string list \<Rightarrow> string list" where
  "pathState [] buffer path = closeSegment False buffer path"
| "pathState (c # cs) buffer path =
     (if c = CHR ''?'' \<or> c = CHR ''#'' then closeSegment False buffer path
      else if c = CHR ''/'' then pathState cs [] (closeSegment True buffer path)
      else pathState cs (buffer @ percentEncode c) path)"

text \<open>The getter \<open>pathname\<close>: every segment after a slash.\<close>

definition serializePath :: "string list \<Rightarrow> string" where
  "serializePath path = concat (map (\<lambda>segment. CHR ''/'' # segment) path)"

text \<open>
  The C0 control percent-encode set of the URL standard, with which an opaque host is
  encoded: the C0 controls and everything above \<open>~\<close>.
\<close>

definition inC0ControlPercentEncodeSet :: "char \<Rightarrow> bool" where
  "inC0ControlPercentEncodeSet c = (let n = (of_char c :: nat) in n \<le> 31 \<or> n > 126)"

definition percentEncodeHost :: "char \<Rightarrow> string" where
  "percentEncodeHost c =
     (if inC0ControlPercentEncodeSet c
      then [CHR ''%'', toHex ((of_char c :: nat) div 16), toHex ((of_char c :: nat) mod 16)]
      else [c])"

text \<open>
  The forbidden host code points of the URL standard: NUL, tab, line feed, carriage
  return, space, \<open>#\<close>, \<open>/\<close>, \<open>:\<close>, \<open><\<close>, \<open>>\<close>, \<open>?\<close>, \<open>@\<close>, \<open>[\<close>, backslash, \<open>]\<close>, \<open>^\<close>, \<open>|\<close>.
\<close>

definition isForbiddenHostCodePoint :: "char \<Rightarrow> bool" where
  "isForbiddenHostCodePoint c =
     ((of_char c :: nat) \<in> set [0, 9, 10, 13, 32, 35, 47, 58, 60, 62, 63, 64, 91, 92, 93, 94, 124])"

text \<open>
  The opaque-host parser, which parses the host of a URL whose scheme is not special:
  failure on a forbidden host code point, else the input percent-encoded.
\<close>

definition opaqueHostParser :: "string \<Rightarrow> string option" where
  "opaqueHostParser input =
     (if list_ex isForbiddenHostCodePoint input then None
      else Some (concat (map percentEncodeHost input)))"

definition isAsciiDigit :: "char \<Rightarrow> bool" where
  "isAsciiDigit c = (48 \<le> (of_char c :: nat) \<and> (of_char c :: nat) \<le> 57)"

text \<open>The number written by the digits of the port, and its shortest decimal form.\<close>

definition portValue :: "string \<Rightarrow> nat" where
  "portValue buffer = foldl (\<lambda>n c. 10 * n + ((of_char c :: nat) - 48)) 0 buffer"

definition serializePort :: "string \<Rightarrow> string" where
  "serializePort buffer =
     (let digits = dropWhile (\<lambda>c. c = CHR ''0'') buffer in if digits = [] then ''0'' else digits)"

text \<open>
  The host state and the port state of the parser on an authority that has no
  credentials and no IPv6 literal, for a scheme that is not special. The result is what
  the getter \<open>host\<close> returns, the host with \<open>:\<close> and the port when there is one; \<open>None\<close>
  is failure. A colon ends the host, which must not be empty then; without a colon the
  host may be empty. The port is made of digits and is at most 65535; it may be empty.
\<close>

definition hostAndPort :: "string \<Rightarrow> string option" where
  "hostAndPort authority =
     (let buffer = takeWhile (\<lambda>c. c \<noteq> CHR '':'') authority;
          afterHost = dropWhile (\<lambda>c. c \<noteq> CHR '':'') authority
      in case afterHost of
           [] \<Rightarrow> opaqueHostParser buffer
         | colon # port \<Rightarrow>
             (if buffer = [] then None
              else case opaqueHostParser buffer of
                     None \<Rightarrow> None
                   | Some h \<Rightarrow>
                       (if \<not> list_all isAsciiDigit port then None
                        else if port = [] then Some h
                        else if portValue port > 65535 then None
                        else Some (h @ CHR '':'' # serializePort port))))"

text \<open>The authority ends at the first \<open>/\<close>, \<open>?\<close> or \<open>#\<close>, or at the end of the input.\<close>

definition isAuthorityEnd :: "char \<Rightarrow> bool" where
  "isAuthorityEnd c = (c = CHR ''/'' \<or> c = CHR ''?'' \<or> c = CHR ''#'')"

text \<open>
  \<open>new URL(input)\<close>. The parser is modelled, from the URL standard, for the inputs that
  \<open>ChartIdentifier\<close> builds from a chart reference. The scheme \<open>xjog+chart\<close> is not
  special. After \<open>xjog+chart:/\<close> the parser is in the path-or-authority state: when no
  second slash follows, it goes into the path state and the URL has no host. After
  \<open>xjog+chart://\<close> it reads the authority and parses host and port; the path starts at the
  slash that ended the authority, and is empty when the authority ended otherwise. On an
  authority with credentials (\<open>@\<close>) or an IPv6 literal (\<open>[\<close>) and on every other input the
  runtime's parser is the parameter \<open>platformURL\<close>.
\<close>

definition newURL :: "(string \<Rightarrow> identifierError + URL) \<Rightarrow> string \<Rightarrow> identifierError + URL" where
  "newURL platformURL input =
     (let s = trimInput input
      in if take 12 s = ''xjog+chart:/'' \<and> take 1 (drop 12 s) \<noteq> ''/''
         then Inr \<lparr> protocol = ''xjog+chart:'', host = [],
                     pathname = serializePath (pathState (drop 12 s) [] []) \<rparr>
         else if take 13 s = ''xjog+chart://''
         then
           (let authority = takeWhile (\<lambda>c. \<not> isAuthorityEnd c) (drop 13 s);
                remaining = dropWhile (\<lambda>c. \<not> isAuthorityEnd c) (drop 13 s)
            in if CHR ''@'' \<in> set authority \<or> CHR ''['' \<in> set authority then platformURL input
               else case hostAndPort authority of
                      None \<Rightarrow> Inl InvalidURL
                    | Some h \<Rightarrow>
                        Inr \<lparr> protocol = ''xjog+chart:'', host = h,
                              pathname = (if take 1 remaining = ''/''
                                          then serializePath (pathState (drop 1 remaining) [] [])
                                          else []) \<rparr>)
         else platformURL input)"

subsection \<open>The class\<close>

text \<open>
  \<open>joinSegments\<close>: empty and missing segments are dropped, every segment is split at its
  slashes, and the pieces are joined with single slashes; the result begins with a slash
  when the first segment did.
\<close>

definition joinSegments :: "string option list \<Rightarrow> string" where
  "joinSegments segments =
     (let truthySegments = filterBoolean (map (\<lambda>s. case s of None \<Rightarrow> [] | Some x \<Rightarrow> x) segments)
      in if truthySegments = [] then []
         else
           (let normalizedSegments = concat (map (\<lambda>seg. filterBoolean (splitOn CHR ''/'' seg)) truthySegments);
                path = joinWith CHR ''/'' normalizedSegments;
                startsWithSlash = (take 1 (hd truthySegments) = ''/'')
            in if startsWithSlash then CHR ''/'' # path else path))"

fun sequenceResults :: "(identifierError + string) list \<Rightarrow> identifierError + string list" where
  "sequenceResults [] = Inr []"
| "sequenceResults (x # xs) =
     (case x of
        Inl e \<Rightarrow> Inl e
      | Inr s \<Rightarrow> (case sequenceResults xs of Inl e \<Rightarrow> Inl e | Inr ss \<Rightarrow> Inr (s # ss)))"

text \<open>The getter \<open>pathSegments\<close>; \<open>decodeURIComponent\<close> may throw.\<close>

definition pathSegments :: "URL \<Rightarrow> identifierError + string list" where
  "pathSegments uri =
     sequenceResults (map decodeURIComponent (filterBoolean (splitOn CHR ''/'' (pathname uri))))"

text \<open>\<open>getPathSegment(index)\<close>: a negative index counts from the end; out of range is null.\<close>

definition getPathSegment :: "URL \<Rightarrow> int \<Rightarrow> identifierError + string option" where
  "getPathSegment uri index =
     (case pathSegments uri of
        Inl e \<Rightarrow> Inl e
      | Inr segs \<Rightarrow>
          (let i = (if index < 0 then int (length segs) + index else index)
           in if 0 \<le> i \<and> i < int (length segs) then Inr (Some (segs ! nat i)) else Inr None))"

definition identifierMachineId :: "URL \<Rightarrow> identifierError + string" where
  "identifierMachineId uri =
     (case getPathSegment uri (-2) of
        Inl e \<Rightarrow> Inl e
      | Inr None \<Rightarrow> Inl InvalidPath
      | Inr (Some s) \<Rightarrow> (if s = [] then Inl InvalidPath else Inr s))"

definition identifierChartId :: "URL \<Rightarrow> identifierError + string" where
  "identifierChartId uri =
     (case getPathSegment uri (-1) of
        Inl e \<Rightarrow> Inl e
      | Inr None \<Rightarrow> Inl InvalidPath
      | Inr (Some s) \<Rightarrow> (if s = [] then Inl InvalidPath else Inr s))"

text \<open>
  A chart reference as the constructor reads it: besides \<open>machineId\<close> and \<open>chartId\<close>, by
  which the stores identify a chart, it may carry the property \<open>host\<close> (here \<open>refHost\<close>,
  \<open>None\<close> when it is missing). The constructor accepts such a reference, or a URI as a
  string (a \<open>URL\<close> object is parsed again from its \<open>href\<close>).
\<close>

record ChartReferenceWithHost = ChartReference +
  refHost :: "string option"

datatype identifierInput = Reference ChartReferenceWithHost | Uri string

text \<open>
  The constructor; \<open>Inl\<close> is what it throws. A chart identifier is its \<open>uri\<close>. The first
  segment is \<open>host ? '/' + host : null\<close>: a missing and an empty host are both left out.
\<close>

definition newChartIdentifier ::
  "(string \<Rightarrow> identifierError + URL) \<Rightarrow> identifierInput \<Rightarrow> identifierError + URL" where
  "newChartIdentifier platformURL input =
     (case (case input of
              Reference r \<Rightarrow>
                newURL platformURL
                  (''xjog+chart:/'' @ joinSegments
                     [(case refHost r of
                         None \<Rightarrow> None
                       | Some h \<Rightarrow> (if h = [] then None else Some (CHR ''/'' # h))),
                      Some (machineId r), Some (chartId r)])
            | Uri s \<Rightarrow>
                (case newURL platformURL s of
                   Inl e \<Rightarrow> Inl e
                 | Inr u \<Rightarrow> Inr (if protocol u = [] then u\<lparr> protocol := ''xjog+chart:'' \<rparr> else u))) of
        Inl e \<Rightarrow> Inl e
      | Inr uri \<Rightarrow>
          (if protocol uri \<noteq> ''xjog+chart:'' then Inl WrongProtocol
           else case identifierMachineId uri of
                  Inl e \<Rightarrow> Inl e
                | Inr m \<Rightarrow>
                    (if m = [] then Inl FailedToParseMachineId
                     else case identifierChartId uri of
                            Inl e \<Rightarrow> Inl e
                          | Inr c \<Rightarrow> (if c = [] then Inl FailedToParseChartId else Inr uri))))"

text \<open>The getter \<open>host\<close>: \<open>this.uri.host || undefined\<close>.\<close>

definition identifierHost :: "URL \<Rightarrow> string option" where
  "identifierHost uri = (if host uri = [] then None else Some (host uri))"

text \<open>The getter \<open>ref\<close>.\<close>

definition identifierRef :: "URL \<Rightarrow> identifierError + ChartReference" where
  "identifierRef uri =
     (case identifierMachineId uri of
        Inl e \<Rightarrow> Inl e
      | Inr m \<Rightarrow> (case identifierChartId uri of
                    Inl e \<Rightarrow> Inl e
                  | Inr c \<Rightarrow> Inr \<lparr> machineId = m, chartId = c \<rparr>))"






section \<open>Scenarios\<close>

text \<open>
  The tables at the moment instance \<open>B\<close> adopts by force: instance \<open>A\<close> is dying, its
  chart \<open>busy\<close> is still paused with an activity of \<open>A\<close> registered, and the chart \<open>idle\<close>
  was adopted by \<open>B\<close> in an earlier pass and has an activity of \<open>B\<close> registered.
\<close>

definition busyRef :: ChartReference where
  "busyRef = \<lparr> machineId = ''simple'', chartId = ''busy'' \<rparr>"

definition idleRef :: ChartReference where
  "idleRef = \<lparr> machineId = ''simple'', chartId = ''idle'' \<rparr>"

definition handoverDatabase :: Database where
  "handoverDatabase =
     \<lparr> instances = [\<lparr> instanceId = ''A'', dying = True \<rparr>, \<lparr> instanceId = ''B'', dying = False \<rparr>],
       charts = [\<lparr> ownerId = ''A'', chartRef = busyRef, parentRef = None,
                   state = ''working'', paused = True \<rparr>,
                 \<lparr> ownerId = ''B'', chartRef = idleRef, parentRef = None,
                   state = ''idle'', paused = False \<rparr>],
       ongoingActivities = [\<lparr> activityRef = busyRef, activityId = ''a1'' \<rparr>,
                            \<lparr> activityRef = idleRef, activityId = ''a2'' \<rparr>],
       deferredEventRows = [] \<rparr>"

text \<open>A sequence of snapshot writes, one after the other.\<close>

fun fullStatesAfterAll :: "FullStateEntry list \<Rightarrow> FullStateEntry list \<Rightarrow> FullStateEntry list" where
  "fullStatesAfterAll [] rows = rows"
| "fullStatesAfterAll (e # es) rows = fullStatesAfterAll es (fullStatesAfter e rows)"

text \<open>Snapshots of the chart \<open>busy\<close> with the ids 3, 5 and 7.\<close>

definition snapshot :: "int \<Rightarrow> string \<Rightarrow> FullStateEntry" where
  "snapshot n s =
     \<lparr> fullId = n, fullTimestamp = 1000 + n, fullOwnerId = ''A'', fullRef = busyRef,
       fullParentRef = None, fullEvent = Some (JString ''go''), fullState = Some (JString s),
       fullContext = Some (JObject []) \<rparr>"

text \<open>
  What rfc6902's \<open>createPatch\<close> returns when neither value is an array or an object:
  no operation for identical values, one \<open>replace\<close> of the root otherwise.
\<close>

definition createPatchOfAtoms :: "json \<Rightarrow> json \<Rightarrow> Operation list" where
  "createPatchOfAtoms input output =
     (if input = output then [] else [\<lparr> op = ''replace'', opPath = [], opValue = Some output \<rparr>])"

text \<open>
  A door machine (\<open>closed\<close> and \<open>open\<close>, with \<open>broken\<close> final) whose transition throws on
  an event it does not know, and a child chart of it run for a parent chart.
\<close>

definition doorState :: "string \<Rightarrow> (string \<times> json) list \<Rightarrow> bool \<Rightarrow> State" where
  "doorState v ctx final =
     \<lparr> stateValue = JString v, stateContext = ctx, stateDone = final, stateActions = [],
       stateActivities = [] \<rparr>"

definition doorTransition :: "State \<Rightarrow> string \<Rightarrow> (string \<times> json) list \<Rightarrow> string + State" where
  "doorTransition st ev ctx =
     (if ev = ''open'' then Inr (doorState ''open'' ctx False)
      else if ev = ''close'' then Inr (doorState ''closed'' ctx False)
      else if ev = ''break'' then Inr (doorState ''broken'' ctx True)
      else Inl ''unknown event'')"

definition parentRefOfDoor :: ChartReference where
  "parentRefOfDoor = \<lparr> machineId = ''house'', chartId = ''h1'' \<rparr>"

definition doorWorld :: ChartWorld where
  "doorWorld =
     \<lparr> chart = \<lparr> chartMachineId = ''door'', chartIdOf = ''d1'', chartParentRef = Some parentRefOfDoor,
                 chartState = doorState ''closed'' [(''knocks'', JNumber 0)] False, stopping = False \<rparr>,
       engineDying = False,
       persistedState = doorState ''closed'' [(''knocks'', JNumber 0)] False,
       effects = [] \<rparr>"

definition failingHook :: "XJogStateChange \<Rightarrow> string option" where
  "failingHook change = Some ''hook failed''"

text \<open>
  A database left behind by an instance \<open>A\<close> that crashed: its chart \<open>busy\<close> still
  has an activity registered, which nobody will unregister.
\<close>

definition crashedDatabase :: Database where
  "crashedDatabase =
     \<lparr> instances = [\<lparr> instanceId = ''A'', dying = False \<rparr>],
       charts = [\<lparr> ownerId = ''A'', chartRef = busyRef, parentRef = None,
                   state = ''working'', paused = False \<rparr>],
       ongoingActivities = [\<lparr> activityRef = busyRef, activityId = ''a1'' \<rparr>],
       deferredEventRows = [] \<rparr>"

text \<open>Some chart has a row in \<open>ongoingActivities\<close>; a paused one is not adopted gently.\<close>

definition someChartIsBusy :: "Database \<Rightarrow> bool" where
  "someChartIsBusy db = list_ex (\<lambda>c. hasOngoingActivity db (chartRef c)) (charts db)"

definition stubbornChartRemains :: "Database \<Rightarrow> bool" where
  "stubbornChartRemains db =
     list_ex (\<lambda>c. paused c \<and> hasOngoingActivity db (chartRef c)) (charts db)"

text \<open>
  The adopting phase at time \<open>t\<close> with a chart that cannot be adopted gently: both
  timers are set, counted from \<open>t\<close>, and no adoption by force has happened.
\<close>

definition adopting :: "StartupOptions \<Rightarrow> nat \<Rightarrow> StartupManager \<Rightarrow> bool" where
  "adopting opts t m =
     (now m = t
      \<and> startupGracePeriodTimer m = Some (t + gracePeriod opts)
      \<and> adoptionLoopTimer m = Some (t + adoptionFrequency opts)
      \<and> forcedAdoptions m = 0
      \<and> stubbornChartRemains (database m))"

section \<open>Theorems\<close>

text \<open>
  C9. The claim: the in-memory list of scheduled events stays sorted by (due ascending,
  id ascending) after every schedule and unschedule. The code: when no later event is in
  the list, \<open>findIndex\<close> returns \<open>-1\<close> and \<open>splice(-1, 0, event)\<close> inserts the event
  before the last element. Scheduling an event due at 100 and then one due at 200 (the
  order in which a batch arrives) leaves the later event first, and the list is not
  sorted.
\<close>

theorem schedule_later_event_breaks_order:
  "deferredEvents (schedule ev2 (schedule ev1 emptyManager)) = [ev2, ev1]
   \<and> \<not> sortedByDueId (deferredEvents (schedule ev2 (schedule ev1 emptyManager)))"
  by (simp add: schedule_def emptyManager_def findIndex_def laterThan_def splice_def
      spliceStart_def ev1_def ev2_def sortedByDueId_def dueIdLe_def)

text \<open>
  C1. The claim: \<open>forciblyAdoptCharts\<close> deletes exactly the \<open>ongoingActivities\<close> rows
  whose chart is paused, resumes every paused chart under the new owner and returns the
  references of the charts that were paused. The code resumes the paused charts and
  returns their references, but its DELETE carries \<open>WHERE NOT EXISTS\<close>: with a paused
  chart \<open>busy\<close> and a running chart \<open>idle\<close>, each with one activity row, it deletes the
  row of the running chart and keeps the row of the paused one.
\<close>

theorem forciblyAdoptCharts_deletes_rows_of_running_charts:
  "forciblyAdoptCharts ''B'' handoverDatabase =
     (\<lparr> instances = [\<lparr> instanceId = ''A'', dying = True \<rparr>, \<lparr> instanceId = ''B'', dying = False \<rparr>],
        charts = [\<lparr> ownerId = ''B'', chartRef = busyRef, parentRef = None,
                    state = ''working'', paused = False \<rparr>,
                  \<lparr> ownerId = ''B'', chartRef = idleRef, parentRef = None,
                    state = ''idle'', paused = False \<rparr>],
        ongoingActivities = [\<lparr> activityRef = busyRef, activityId = ''a1'' \<rparr>],
        deferredEventRows = [] \<rparr>,
      [busyRef])"
  by (simp add: forciblyAdoptCharts_def handoverDatabase_def getPausedChartIds_def
      deleteOngoingActivitiesForPausedCharts_def pausedChartExists_def
      changeOwnerAndResumePausedCharts_def busyRef_def idleRef_def)

text \<open>
  C3. The claim: when a poll sees the instance flagged dying, the callback is invoked
  exactly once. The code sets \<open>cancelled = true\<close> just before it tests \<open>!cancelled\<close>, so
  the callback is not invoked by any poll, whatever the database holds: after any
  sequence of polls on a fresh listener the number of calls is zero, also when the
  first poll reads a database where the instance is dying.
\<close>

theorem onDeathNote_never_calls_back:
  "callbackCalls (deathNotePolls i dbs onDeathNote) = 0
   \<and> deathNotePoll ''A'' (markAllInstancesDying (insertInstance ''A'' emptyDatabase)) onDeathNote
       = \<lparr> cancelled = True, timerArmed = False, callbackCalls = 0 \<rparr>"
proof
  have step: "callbackCalls (deathNotePoll j db l) = callbackCalls l" for j db l
    by (simp add: deathNotePoll_def clearIntervalTimer_def Let_def)
  have "callbackCalls (deathNotePolls i dbs l) = callbackCalls l" for l
    by (induction dbs arbitrary: l) (simp_all add: step)
  then show "callbackCalls (deathNotePolls i dbs onDeathNote) = 0"
    by (simp add: onDeathNote_def)
  show "deathNotePoll ''A'' (markAllInstancesDying (insertInstance ''A'' emptyDatabase)) onDeathNote
       = \<lparr> cancelled = True, timerArmed = False, callbackCalls = 0 \<rparr>"
    by (simp add: deathNotePoll_def clearIntervalTimer_def onDeathNote_def
        markAllInstancesDying_def insertInstance_def emptyDatabase_def)
qed

text \<open>
  C4. The claim: after \<open>shutdown\<close> completes, the instance's row is gone from the
  \<open>instances\<close> table, and the table is empty when the engine was the only one. The code:
  \<open>removeInstance\<close> calls \<open>deleteInstance\<close>, whose DELETE statement is commented out. An
  engine started on an empty database and shut down halts with its row still in the
  table, not even flagged dying.
\<close>

theorem shutdown_leaves_instance_row:
  "shutdown (startedEngine ''A'') =
     Some (Inr \<lparr> xjogId = ''A'', isDying = True, started = True, ready = True,
                 deathNoteListener = \<lparr> cancelled = True, timerArmed = False, callbackCalls = 0 \<rparr>,
                 activityRegistry = [], deferredEventManager = emptyManager, halted = True,
                 persistence = \<lparr> instances = [\<lparr> instanceId = ''A'', dying = False \<rparr>], charts = [],
                                 ongoingActivities = [], deferredEventRows = [] \<rparr> \<rparr>)"
  by (simp add: shutdown_def startedEngine_def overthrowOtherInstances_def insertInstance_def
      markAllChartsPaused_def markAllInstancesDying_def emptyDatabase_def removeInstance_def
      deleteInstance_def releaseAll_def stopAllActivities_def countAliveInstances_def
      waitForAdoption.simps countOwnCharts_def cancelDeathNote_def clearIntervalTimer_def
      onDeathNote_def unmarkAllDeferredEventsForProcessing_def Let_def)

subsection \<open>Snapshots of the full state\<close>

lemma fullRef_updateRow: "fullRef (updateRow e x) = fullRef x"
  by (simp add: updateRow_def)

lemma filter_map_updateRow:
  "filter (\<lambda>x. fullRef x = r) (map (\<lambda>x. if fullRef x = q then updateRow e x else x) rows)
   = map (\<lambda>x. if fullRef x = q then updateRow e x else x) (filter (\<lambda>x. fullRef x = r) rows)"
  by (induction rows) (auto simp: fullRef_updateRow)

lemma storedId_fullStatesAfter:
  assumes "storedId r rows = Some k"
  shows "\<exists>k'. storedId r (fullStatesAfter entry rows) = Some k' \<and> k \<le> k'"
proof (cases "updateFullState entry rows")
  case (Inl e)
  then show ?thesis using assms by (simp add: fullStatesAfter_def)
next
  case (Inr rows')
  from assms obtain x xs where f: "filter (\<lambda>x. fullRef x = r) rows = x # xs" and k: "fullId x = k"
    by (auto simp: storedId_def storedRow_def split: list.splits)
  have "x \<in> set (filter (\<lambda>x. fullRef x = r) rows)" unfolding f by simp
  then have fx: "fullRef x = r" by simp
  show ?thesis
  proof (cases "filter (\<lambda>x. fullRef x = fullRef entry) rows")
    case Nil
    then have r: "rows' = rows @ [entry\<lparr> fullEvent := orNull (fullEvent entry),
                                  fullState := orNull (fullState entry),
                                  fullContext := orNull (fullContext entry) \<rparr>]"
      using Inr by (simp add: updateFullState_def)
    show ?thesis using Inr r f k
      by (simp add: fullStatesAfter_def storedId_def storedRow_def)
  next
    case (Cons existing rest)
    then have lt: "fullId existing < fullId entry"
      and r: "rows' = map (\<lambda>x. if fullRef x = fullRef entry then updateRow entry x else x) rows"
      using Inr by (auto simp add: updateFullState_def split: if_splits)
    show ?thesis
    proof (cases "fullRef entry = r")
      case True
      then have xe: "x = existing" using f Cons by simp
      have s1: "storedId r rows' = Some (fullId entry)"
        unfolding r storedId_def storedRow_def filter_map_updateRow f
        by (simp add: fx True updateRow_def)
      show ?thesis using s1 lt k xe Inr by (simp add: fullStatesAfter_def)
    next
      case False
      have s1: "storedId r rows' = Some k"
        unfolding r storedId_def storedRow_def filter_map_updateRow f
        using False fx k by simp
      show ?thesis using s1 Inr by (simp add: fullStatesAfter_def)
    qed
  qed
qed

lemma storedId_fullStatesAfterAll:
  "storedId r rows = Some k \<Longrightarrow>
     \<exists>k'. storedId r (fullStatesAfterAll entries rows) = Some k' \<and> k \<le> k'"
proof (induction entries arbitrary: rows k)
  case Nil
  then show ?case by simp
next
  case (Cons e es)
  from storedId_fullStatesAfter [OF Cons.prems, of e]
  obtain k1 where k1: "storedId r (fullStatesAfter e rows) = Some k1" "k \<le> k1" by blast
  from Cons.IH [OF k1(1)]
  obtain k2 where "storedId r (fullStatesAfterAll es (fullStatesAfter e rows)) = Some k2" "k1 \<le> k2"
    by blast
  with k1 show ?case by auto
qed

lemma updateFullState_guard:
  assumes "storedId (fullRef entry) rows = Some k" "fullId entry \<le> k"
  shows "updateFullState entry rows = Inl FailedToWriteJournalFullEntry
         \<and> fullStatesAfter entry rows = rows"
  using assms
  by (auto simp: storedId_def storedRow_def updateFullState_def fullStatesAfter_def
      split: list.splits)

text \<open>
  C6. For every chart the id stored in its \<open>fullJournalStates\<close> row never decreases,
  whatever snapshots are written and in whatever order, and a write whose id is lower
  than or equal to the stored id does not overwrite the row: the guarded upsert affects
  no row, the method throws and the table is as before.
\<close>

theorem fullJournalStates_id_never_decreases:
  assumes "storedId r rows = Some k"
  shows "(\<exists>k'. storedId r (fullStatesAfterAll entries rows) = Some k' \<and> k \<le> k')
         \<and> (fullRef entry = r \<and> fullId entry \<le> k \<longrightarrow>
              updateFullState entry rows = Inl FailedToWriteJournalFullEntry
              \<and> fullStatesAfter entry rows = rows)"
  using assms storedId_fullStatesAfterAll [OF assms] updateFullState_guard [of entry rows k]
  by blast

theorem fullJournalStates_id_never_decreases_witness:
  "storedId busyRef [snapshot 5 ''working''] = Some 5
   \<and> (\<exists>k'. storedId busyRef
              (fullStatesAfterAll [snapshot 3 ''idle'', snapshot 7 ''done'', snapshot 5 ''working'']
                 [snapshot 5 ''working'']) = Some k' \<and> 5 \<le> k')
   \<and> updateFullState (snapshot 3 ''idle'') [snapshot 5 ''working''] = Inl FailedToWriteJournalFullEntry
   \<and> fullStatesAfter (snapshot 3 ''idle'') [snapshot 5 ''working''] = [snapshot 5 ''working'']"
proof -
  have h: "storedId busyRef [snapshot 5 ''working''] = Some 5"
    by (simp add: storedId_def storedRow_def snapshot_def)
  have g: "fullRef (snapshot 3 ''idle'') = busyRef \<and> fullId (snapshot 3 ''idle'') \<le> 5"
    by (simp add: snapshot_def)
  show ?thesis
    using h g fullJournalStates_id_never_decreases [OF h,
        of "[snapshot 3 ''idle'', snapshot 7 ''done'', snapshot 5 ''working'']" "snapshot 3 ''idle''"]
    by blast
qed

text \<open>
  C2. The claim: applying the stored \<open>stateDelta\<close> of a journal entry to the entry's
  state gives the state of the entry before it. \<open>record\<close> does compute the delta from the
  new value back to the old one. When a transition leaves a string state as it was
  (the repository's delta test has such a step, with \<open>stateDelta = []\<close>), \<open>createPatch\<close>
  returns the empty patch, and \<open>nullSafeApplyJsonDiff\<close>, which the journal reader applies
  deltas with, throws on it instead of returning the unchanged state: only a single
  \<open>replace\<close> of the root is accepted for an input that is a string, a number or null.
\<close>

theorem unchanged_state_delta_is_rejected:
  assumes "createPatch (JString s) (JString s) = []"
    and "journalRecord createPatch owner r parent ev (JString s) oldCtx (JString s) newCtx
           ts jdb = Inr jdb'"
  shows "stateDelta (last (journalEntries jdb')) = createPatch (JString s) (JString s)
         \<and> nullSafeApplyJsonDiff applyPatch (JString s) (stateDelta (last (journalEntries jdb')))
             = Inl ComplexPatchButInputIsNotAnObject"
proof -
  have "stateDelta (last (journalEntries jdb')) = createPatch (JString s) (JString s)"
    using assms(2)
    by (auto simp: journalRecord_def insertEntry_def Let_def split: sum.splits)
  then show ?thesis
    using assms(1) by (simp add: nullSafeApplyJsonDiff_def)
qed

theorem unchanged_state_delta_is_rejected_witness:
  "createPatchOfAtoms (JString ''home'') (JString ''home'') = []
   \<and> (\<exists>jdb'. journalRecord createPatchOfAtoms ''A'' busyRef None (Some (JString ''get restless''))
         (JString ''home'') (JObject []) (JString ''home'') (JObject []) 1000 emptyJournal = Inr jdb'
       \<and> stateDelta (last (journalEntries jdb')) = []
       \<and> nullSafeApplyJsonDiff (\<lambda>input patch. input) (JString ''home'')
            (stateDelta (last (journalEntries jdb'))) = Inl ComplexPatchButInputIsNotAnObject)"
proof -
  have h: "createPatchOfAtoms (JString ''home'') (JString ''home'') = []"
    by (simp add: createPatchOfAtoms_def)
  obtain jdb' where r: "journalRecord createPatchOfAtoms ''A'' busyRef None
      (Some (JString ''get restless'')) (JString ''home'') (JObject []) (JString ''home'')
      (JObject []) 1000 emptyJournal = Inr jdb'"
    by (simp add: journalRecord_def insertEntry_def updateFullState_def emptyJournal_def Let_def)
  have t: "stateDelta (last (journalEntries jdb')) = []
      \<and> nullSafeApplyJsonDiff (\<lambda>input patch. input) (JString ''home'')
            (stateDelta (last (journalEntries jdb'))) = Inl ComplexPatchButInputIsNotAnObject"
    using unchanged_state_delta_is_rejected [OF h r, of "\<lambda>input patch. input"]
    unfolding h by blast
  show ?thesis
    using h r t by blast
qed

text \<open>
  C7. The claim: when the transition or an update hook raises, \<open>send\<close> returns null, the
  chart row is as before, and the chart's state in memory is the state from before the
  send, context patch included. The code returns null and does not write the row, but it
  does not restore the state in memory: a hook that throws after the transition leaves
  the new state in memory (first part), and a transition that throws leaves the context
  patch assigned (second part).
\<close>

theorem send_failure_keeps_new_state_in_memory:
  "send doorTransition [failingHook] ''open'' None doorWorld =
     (None, doorWorld\<lparr> chart := (chart doorWorld)\<lparr>
              chartState := doorState ''open'' [(''knocks'', JNumber 0)] False \<rparr> \<rparr>)
   \<and> send doorTransition [] ''knock'' (Some (Fields [(''knocks'', JNumber 1)])) doorWorld =
     (None, doorWorld\<lparr> chart := (chart doorWorld)\<lparr>
              chartState := doorState ''closed'' [(''knocks'', JNumber 1)] False \<rparr> \<rparr>)
   \<and> persistedState doorWorld = doorState ''closed'' [(''knocks'', JNumber 0)] False"
  by (simp add: send_def doorWorld_def doorTransition_def doorState_def failingHook_def
      patchContext_def Let_def)

text \<open>
  C8. The claim: when the new state is final and the chart has a parent, the
  \<open>done.invoke\<close> event for the parent goes through the deferred event scheduler. The
  code calls \<open>xJog.sendEvent\<close> on the parent at once (after it has released the chart
  mutex), under a comment that the event should probably be deferred: the only effects
  of the send are the row update, the broadcast, the direct delivery to the parent and
  the auto-forward, and nothing is deferred.
\<close>

theorem send_delivers_done_event_directly:
  "send doorTransition [] ''break'' None doorWorld =
     (Some (doorState ''broken'' [(''knocks'', JNumber 0)] True),
      \<lparr> chart = \<lparr> chartMachineId = ''door'', chartIdOf = ''d1'', chartParentRef = Some parentRefOfDoor,
                  chartState = doorState ''broken'' [(''knocks'', JNumber 0)] True, stopping = False \<rparr>,
        engineDying = False,
        persistedState = doorState ''broken'' [(''knocks'', JNumber 0)] True,
        effects =
          [UpdatedChart \<lparr> machineId = ''door'', chartId = ''d1'' \<rparr>,
           Published \<lparr> changeRef = \<lparr> machineId = ''door'', chartId = ''d1'' \<rparr>,
                       changeParentRef = Some parentRefOfDoor, changeEvent = ''break'',
                       changeOldValue = JString ''closed'', changeOldContext = [(''knocks'', JNumber 0)],
                       changeNewValue = JString ''broken'', changeNewContext = [(''knocks'', JNumber 0)] \<rparr>,
           SentEvent parentRefOfDoor ''done.invoke.d1'',
           AutoForwarded ''break''] \<rparr>)"
  by (simp add: send_def doorWorld_def doorTransition_def doorState_def patchContext_def
      refOf_def doneInvoke_def Let_def)

subsection \<open>Adoption and the grace period\<close>

lemma changeOwnerAndResumeCharts_charts:
  "charts (changeOwnerAndResumeCharts i rs db)
     = map (\<lambda>c. if chartRef c \<in> set rs then c\<lparr> paused := False, ownerId := i \<rparr> else c) (charts db)"
proof (induction rs arbitrary: db)
  case Nil
  then show ?case by simp
next
  case (Cons r rs)
  show ?case
    by (simp add: Cons.IH comp_def)
qed

lemma changeOwnerAndResumeCharts_activities:
  "ongoingActivities (changeOwnerAndResumeCharts i rs db) = ongoingActivities db"
  by (induction rs arbitrary: db) simp_all

lemma hasOngoingActivity_cong:
  "ongoingActivities db' = ongoingActivities db \<Longrightarrow> hasOngoingActivity db' r = hasOngoingActivity db r"
  by (simp add: hasOngoingActivity_def)

lemma stubborn_gentlyAdoptCharts:
  assumes "stubbornChartRemains db"
  shows "stubbornChartRemains (fst (gentlyAdoptCharts i db))"
proof -
  from assms obtain c where c: "c \<in> set (charts db)" "paused c" "hasOngoingActivity db (chartRef c)"
    by (auto simp: stubbornChartRemains_def list_ex_iff)
  let ?rs = "getPausedChartWithNoOngoingActivitiesIds db"
  let ?db = "changeOwnerAndResumeCharts i ?rs db"
  have notin: "chartRef c \<notin> set ?rs"
    using c(3) by (auto simp: getPausedChartWithNoOngoingActivitiesIds_def)
  have "c \<in> set (charts ?db)"
    unfolding changeOwnerAndResumeCharts_charts using c(1) notin by force
  moreover have "hasOngoingActivity ?db (chartRef c)"
    using c(3) by (simp add: hasOngoingActivity_cong [OF changeOwnerAndResumeCharts_activities])
  ultimately show ?thesis
    using c(2) by (auto simp: stubbornChartRemains_def list_ex_iff gentlyAdoptCharts_def Let_def)
qed

lemma stubborn_paused: "stubbornChartRemains db \<Longrightarrow> countPausedCharts db > 0"
  by (auto simp: stubbornChartRemains_def countPausedCharts_def list_ex_iff filter_empty_conv)

lemma busy_overthrown:
  "someChartIsBusy db \<Longrightarrow> stubbornChartRemains (overthrowOtherInstances i db)"
  by (auto simp: someChartIsBusy_def stubbornChartRemains_def overthrowOtherInstances_def
      insertInstance_def markAllChartsPaused_def markAllInstancesDying_def hasOngoingActivity_def
      list_ex_iff)

lemma adoptCharts_stubborn:
  assumes "stubbornChartRemains (database m)" "forcedAdoptions m = 0"
  shows "adopting opts (now m) (adoptCharts opts m)"
proof -
  obtain db rs where g: "gentlyAdoptCharts (selfId m) (database m) = (db, rs)" by force
  have st: "stubbornChartRemains db"
    using stubborn_gentlyAdoptCharts [OF assms(1), of "selfId m"] g by simp
  have p: "countPausedCharts db > 0" using stubborn_paused [OF st] .
  show ?thesis
    using g st p assms(2)
    by (simp add: adoptCharts_def adopting_def Let_def startAdoptionGracePeriod_def
        exitAdoptionGracePeriod_def startAdoptedCharts_def)
qed

lemma start_adopting:
  assumes "someChartIsBusy db"
  shows "adopting opts 0 (start opts (newStartupManager i db))"
proof -
  let ?m = "startAdoptionGracePeriod opts
     ((newStartupManager i db)\<lparr> database := overthrowOtherInstances i db \<rparr>)"
  have a: "stubbornChartRemains (database ?m)" "forcedAdoptions ?m = 0" "now ?m = 0"
    using busy_overthrown [OF assms, of i]
    by (simp_all add: startAdoptionGracePeriod_def exitAdoptionGracePeriod_def newStartupManager_def)
  have "adopting opts (now ?m) (adoptCharts opts ?m)"
    by (rule adoptCharts_stubborn [OF a(1) a(2)])
  then show ?thesis
    using a(3) by (simp add: start_def Let_def adopting_def newStartupManager_def)
qed

lemma fireNextTimer_adopting:
  assumes "adoptionFrequency opts < gracePeriod opts" "adopting opts t m"
  shows "adopting opts (t + adoptionFrequency opts) (fireNextTimer opts m)"
proof -
  let ?m = "m\<lparr> now := max (now m) (t + adoptionFrequency opts) \<rparr>"
  have f: "fireNextTimer opts m = adoptCharts opts ?m"
    using assms by (simp add: fireNextTimer_def adopting_def)
  have "adopting opts (now ?m) (adoptCharts opts ?m)"
    by (rule adoptCharts_stubborn) (use assms(2) in \<open>simp_all add: adopting_def\<close>)
  moreover have "now ?m = t + adoptionFrequency opts"
    using assms(2) by (simp add: adopting_def)
  ultimately show ?thesis using f by simp
qed

lemma fireTimers_adopting:
  assumes "adoptionFrequency opts < gracePeriod opts" "adopting opts t m"
  shows "adopting opts (t + n * adoptionFrequency opts) (fireTimers n opts m)"
  using assms(2)
proof (induction n arbitrary: t m)
  case 0
  then show ?case by simp
next
  case (Suc n)
  from Suc.IH [OF fireNextTimer_adopting [OF assms(1) Suc.prems]]
  show ?case by (simp add: add.assoc add.commute)
qed

lemma crashedDatabase_busy: "someChartIsBusy crashedDatabase"
  by (simp add: someChartIsBusy_def crashedDatabase_def hasOngoingActivity_def)

text \<open>
  C5. The claim: when paused charts remain at the end of the grace period, the
  grace-period timer fires and \<open>forciblyAdoptCharts\<close> is invoked, no later than
  \<open>gracePeriod\<close> after the adopting phase began. The code: every adoption pass that
  leaves a paused chart restarts the grace-period timer and sets the next pass
  \<open>adoptionFrequency\<close> later, also when the pass adopted nothing. The options always
  have \<open>adoptionFrequency < gracePeriod\<close> (the grace period is at least 2.5 times the
  frequency), so with a chart that stays paused because an activity is registered for it
  the next pass always comes before the grace-period timer is due: after any number of
  timer events the time is that many adoption periods, both timers are set anew, charts
  are still paused, and \<open>forciblyAdoptCharts\<close> has not been invoked. The documentation
  of \<open>adoptCharts\<close> says that \<open>forciblyOverThrowStubbornInstances\<close> will be called after
  the grace period.
\<close>

theorem forcible_adoption_never_invoked:
  assumes "adoptionFrequency opts < gracePeriod opts" and "someChartIsBusy db"
  shows "now (fireTimers n opts (start opts (newStartupManager i db))) = n * adoptionFrequency opts
    \<and> startupGracePeriodTimer (fireTimers n opts (start opts (newStartupManager i db)))
        = Some (n * adoptionFrequency opts + gracePeriod opts)
    \<and> adoptionLoopTimer (fireTimers n opts (start opts (newStartupManager i db)))
        = Some (n * adoptionFrequency opts + adoptionFrequency opts)
    \<and> forcedAdoptions (fireTimers n opts (start opts (newStartupManager i db))) = 0
    \<and> countPausedCharts (database (fireTimers n opts (start opts (newStartupManager i db)))) > 0"
  using fireTimers_adopting [OF assms(1) start_adopting [OF assms(2), of opts i], of n]
  by (simp add: adopting_def stubborn_paused)

text \<open>
  With the default options (a pass every 2 s, grace period 30 s) and the chart of a
  crashed instance: 32 s after the adopting phase began the chart is still paused, the
  grace period has long elapsed, adoption by force has not been invoked, and the
  grace-period timer is set for the 62nd second.
\<close>

theorem forcible_adoption_never_invoked_witness:
  "adoptionFrequency defaultStartupOptions < gracePeriod defaultStartupOptions
   \<and> someChartIsBusy crashedDatabase
   \<and> gracePeriod defaultStartupOptions = 30000
   \<and> now (fireTimers 16 defaultStartupOptions
         (start defaultStartupOptions (newStartupManager ''B'' crashedDatabase))) = 32000
   \<and> startupGracePeriodTimer (fireTimers 16 defaultStartupOptions
         (start defaultStartupOptions (newStartupManager ''B'' crashedDatabase))) = Some 62000
   \<and> forcedAdoptions (fireTimers 16 defaultStartupOptions
         (start defaultStartupOptions (newStartupManager ''B'' crashedDatabase))) = 0
   \<and> countPausedCharts (database (fireTimers 16 defaultStartupOptions
         (start defaultStartupOptions (newStartupManager ''B'' crashedDatabase)))) > 0"
proof -
  have h: "adoptionFrequency defaultStartupOptions < gracePeriod defaultStartupOptions"
    by (simp add: defaultStartupOptions_def)
  have v: "16 * adoptionFrequency defaultStartupOptions = 32000"
    "16 * adoptionFrequency defaultStartupOptions + gracePeriod defaultStartupOptions = 62000"
    "gracePeriod defaultStartupOptions = 30000"
    by (simp_all add: defaultStartupOptions_def)
  have t: "now (fireTimers 16 defaultStartupOptions
         (start defaultStartupOptions (newStartupManager ''B'' crashedDatabase))) = 32000
   \<and> startupGracePeriodTimer (fireTimers 16 defaultStartupOptions
         (start defaultStartupOptions (newStartupManager ''B'' crashedDatabase))) = Some 62000
   \<and> forcedAdoptions (fireTimers 16 defaultStartupOptions
         (start defaultStartupOptions (newStartupManager ''B'' crashedDatabase))) = 0
   \<and> countPausedCharts (database (fireTimers 16 defaultStartupOptions
         (start defaultStartupOptions (newStartupManager ''B'' crashedDatabase)))) > 0"
    using forcible_adoption_never_invoked [OF h crashedDatabase_busy, of 16 "''B''"]
    unfolding v by simp
  show ?thesis
    using h crashedDatabase_busy v(3) t by blast
qed

subsection \<open>Chart identifiers\<close>


































text \<open>
  The two references of the repository's tests, without and with a host: the URI, the
  ids and the host are as the tests expect them.
\<close>

lemma consumes_chart_references:
  "newChartIdentifier platformURL
     (Reference \<lparr> machineId = ''this machine'', chartId = ''that chart'', refHost = None \<rparr>)
     = Inr \<lparr> protocol = ''xjog+chart:'', host = [], pathname = ''/this%20machine/that%20chart'' \<rparr>
   \<and> identifierRef \<lparr> protocol = ''xjog+chart:'', host = [],
                       pathname = ''/this%20machine/that%20chart'' \<rparr>
       = Inr \<lparr> machineId = ''this machine'', chartId = ''that chart'' \<rparr>
   \<and> identifierHost \<lparr> protocol = ''xjog+chart:'', host = [],
                        pathname = ''/this%20machine/that%20chart'' \<rparr> = None"
  by (simp add: newChartIdentifier_def identifierRef_def identifierHost_def newURL_def
      joinSegments_def filterBoolean_def trimInput_def isC0ControlOrSpace_def isTabOrNewline_def
      closeSegment_def isDoubleDot_def isSingleDot_def percentEncode_def
      inPathPercentEncodeSet_def serializePath_def identifierMachineId_def identifierChartId_def
      getPathSegment_def pathSegments_def decodeURIComponent_def validUtf8_def fromHex_def
      toHex_def char_of_eq_iff take_bit_eq_mod Let_def)

lemma consumes_chart_references_with_host:
  "newChartIdentifier platformURL
     (Reference \<lparr> machineId = ''this machine'', chartId = ''that chart'',
                  refHost = Some ''host.domain.tld:123'' \<rparr>)
     = Inr \<lparr> protocol = ''xjog+chart:'', host = ''host.domain.tld:123'',
             pathname = ''/this%20machine/that%20chart'' \<rparr>
   \<and> identifierRef \<lparr> protocol = ''xjog+chart:'', host = ''host.domain.tld:123'',
                       pathname = ''/this%20machine/that%20chart'' \<rparr>
       = Inr \<lparr> machineId = ''this machine'', chartId = ''that chart'' \<rparr>
   \<and> identifierHost \<lparr> protocol = ''xjog+chart:'', host = ''host.domain.tld:123'',
                        pathname = ''/this%20machine/that%20chart'' \<rparr>
       = Some ''host.domain.tld:123''"
  by (simp add: newChartIdentifier_def identifierRef_def identifierHost_def newURL_def
      joinSegments_def filterBoolean_def trimInput_def isC0ControlOrSpace_def isTabOrNewline_def
      isAuthorityEnd_def hostAndPort_def opaqueHostParser_def isForbiddenHostCodePoint_def
      percentEncodeHost_def inC0ControlPercentEncodeSet_def isAsciiDigit_def portValue_def
      serializePort_def
      closeSegment_def isDoubleDot_def isSingleDot_def percentEncode_def
      inPathPercentEncodeSet_def serializePath_def identifierMachineId_def identifierChartId_def
      getPathSegment_def pathSegments_def decodeURIComponent_def validUtf8_def fromHex_def
      toHex_def char_of_eq_iff take_bit_eq_mod Let_def)




end
